theory Spec2Isabelle
  imports Complex_Main
begin

section \<open>JavaScript numbers\<close>

text \<open>
  The results of the controller's arithmetic. The arithmetic is that of doubles: the
  exact result of an operation on integers is rounded to the nearest double, ties to
  the even significand, and a result of magnitude \<open>2^1024\<close> or more is an infinity.
\<close>

datatype jsnum = Num int | NaN | Infinity | NegInfinity

text \<open>The length of the binary form of a number.\<close>

fun bits :: "nat \<Rightarrow> nat" where
  "bits n = (if n = 0 then 0 else Suc (bits (n div 2)))"

declare bits.simps [simp del]

text \<open>Rounding a natural number to 53 significant bits.\<close>

definition fl_nat :: "nat \<Rightarrow> nat" where
  "fl_nat n =
     (let e = bits n - 53; q = n div 2 ^ e; r = n mod 2 ^ e; h = 2 ^ e div 2
      in if e = 0 then n
         else (if h < r \<or> (r = h \<and> odd q) then q + 1 else q) * 2 ^ e)"

text \<open>The double for an exact integer result.\<close>

definition fl :: "int \<Rightarrow> jsnum" where
  "fl i =
     (let m = fl_nat (nat \<bar>i\<bar>)
      in if 2 ^ 1024 \<le> m then (if i < 0 then NegInfinity else Infinity)
         else Num (if i < 0 then - int m else int m))"

text \<open>\<^verbatim>\<open>x * b\<close> for a double \<open>x\<close> and an integer \<open>b\<close>.\<close>

definition js_times :: "jsnum \<Rightarrow> int \<Rightarrow> jsnum" where
  "js_times x b =
     (case x of
        Num a \<Rightarrow> fl (a * b)
      | NaN \<Rightarrow> NaN
      | Infinity \<Rightarrow> (if b = 0 then NaN else if 0 < b then Infinity else NegInfinity)
      | NegInfinity \<Rightarrow> (if b = 0 then NaN else if 0 < b then NegInfinity else Infinity))"

text \<open>
  \<^verbatim>\<open>Math.ceil(a / b)\<close> for \<open>0 < b\<close> or \<open>b < 0\<close> and a count \<open>a\<close>, computed as the doubles
  are: the quotient is rounded to 53 significant bits before the ceiling is taken.
\<close>

definition ceil_quotient :: "nat \<Rightarrow> int \<Rightarrow> int" where
  "ceil_quotient a b =
     (let d = nat \<bar>b\<bar> in
      if a < d then (if 0 < b then 1 else 0)
      else
        let k = bits (a div d) - 1;
            num = (if k \<le> 52 then a * 2 ^ (52 - k) else a);
            den = (if k \<le> 52 then d else d * 2 ^ (k - 52));
            q = num div den;
            r = num mod den;
            m = (if den < 2 * r \<or> (2 * r = den \<and> odd q) then q + 1 else q)
        in if 52 \<le> k then (if 0 < b then int (m * 2 ^ (k - 52)) else - int (m * 2 ^ (k - 52)))
           else (if 0 < b then - ((- int m) div 2 ^ (52 - k)) else - int (m div 2 ^ (52 - k))))"

text \<open>Decimal digits.\<close>

fun show_nat :: "nat \<Rightarrow> string" where
  "show_nat n =
     (if n < 10 then [''0123456789'' ! n]
      else show_nat (n div 10) @ [''0123456789'' ! (n mod 10)])"

definition show_int :: "int \<Rightarrow> string" where
  "show_int i = (if i < 0 then CHR ''-'' # show_nat (nat (- i)) else show_nat (nat i))"

text \<open>
  \<^verbatim>\<open>String(x)\<close> for a number: the shortest digits that read back as the same double,
  tried with 1 to 17 digits; written out in full below \<open>10^21\<close>, with an exponent from
  there on. Up to \<open>2^53\<close> these are the decimal digits of the integer.
\<close>

definition shortest :: "nat \<Rightarrow> nat \<Rightarrow> (nat \<times> nat) option" where
  "shortest x k =
     (let e = length (show_nat x) - k; p = 10 ^ e; lo = x div p; hi = lo + 1;
          okl = (fl_nat (lo * p) = x); okh = (fl_nat (hi * p) = x)
      in if okl \<and> okh
         then Some (if x - lo * p < hi * p - x then lo
                    else if hi * p - x < x - lo * p then hi
                    else if even lo then lo else hi, e)
         else if okl then Some (lo, e)
         else if okh then Some (hi, e)
         else None)"

definition strip_zeros :: "string \<Rightarrow> string" where
  "strip_zeros ds = rev (dropWhile (\<lambda>c. c = CHR ''0'') (rev ds))"

definition big_number_string :: "nat \<Rightarrow> string" where
  "big_number_string x =
     (case List.map_filter (shortest x) [1..<18] of
        [] \<Rightarrow> show_nat x
      | (s, e) # _ \<Rightarrow>
          let n = length (show_nat s) + e; ds = strip_zeros (show_nat s)
          in if n \<le> 21 then ds @ replicate (n - length ds) (CHR ''0'')
             else hd ds # (if tl ds = [] then [] else CHR ''.'' # tl ds)
                  @ ''e+'' @ show_nat (n - 1))"

definition number_string :: "int \<Rightarrow> string" where
  "number_string n =
     (if \<bar>n\<bar> \<le> 2 ^ 53 then show_int n
      else (case fl n of
              Num d \<Rightarrow> (if d < 0 then ''-'' else []) @ big_number_string (nat \<bar>d\<bar>)
            | NaN \<Rightarrow> ''NaN''
            | Infinity \<Rightarrow> ''Infinity''
            | NegInfinity \<Rightarrow> ''-Infinity''))"

section \<open>JavaScript values\<close>

text \<open>
  The values that travel through the controller: request payloads, query constraints
  and record cells. A number is a double with an integer value (page numbers, counts,
  limits, ids): \<open>JNum n\<close> is the double nearest to \<open>n\<close>. An object is the list of its
  own properties in the order JavaScript enumerates them (array indices first, in
  ascending order, then the other keys in insertion order), with distinct keys.
  \<open>JInherited k\<close> is the member \<open>k\<close> that a plain object inherits from
  \<^verbatim>\<open>Object.prototype\<close>.
\<close>

datatype jsval =
    JUndefined
  | JNull
  | JBool bool
  | JNum int
  | JStr string
  | JObjectId string
  | JRegExp string string
  | JInherited string
  | JArr "jsval list"
  | JObj "(string \<times> jsval) list"

type_synonym obj = "(string \<times> jsval) list"

text \<open>The own property \<open>k\<close> of an object, if it has one.\<close>

fun obj_get :: "(string \<times> 'v) list \<Rightarrow> string \<Rightarrow> 'v option" where
  "obj_get [] k = None"
| "obj_get ((k', v) # kvs) k = (if k' = k then Some v else obj_get kvs k)"

text \<open>
  The members every plain object inherits from \<^verbatim>\<open>Object.prototype\<close>; \<^verbatim>\<open>o[k]\<close> finds
  them when \<open>o\<close> has no own property \<open>k\<close>.
\<close>

definition object_prototype_members :: "string list" where
  "object_prototype_members =
     [''constructor'', ''__defineGetter__'', ''__defineSetter__'', ''hasOwnProperty'',
      ''__lookupGetter__'', ''__lookupSetter__'', ''isPrototypeOf'',
      ''propertyIsEnumerable'', ''toString'', ''valueOf'', ''__proto__'',
      ''toLocaleString'']"


text \<open>
  An array index is a key that is the decimal form, without leading zeros, of a number
  below \<open>2^32 - 1\<close>. Such keys are enumerated before all others, in ascending order.
\<close>

definition digit_of :: "char \<Rightarrow> nat option" where
  "digit_of c =
     map_of [(CHR ''0'', 0), (CHR ''1'', 1), (CHR ''2'', 2), (CHR ''3'', 3), (CHR ''4'', 4),
             (CHR ''5'', 5), (CHR ''6'', 6), (CHR ''7'', 7), (CHR ''8'', 8), (CHR ''9'', 9)] c"

fun parse_nat :: "nat \<Rightarrow> string \<Rightarrow> nat option" where
  "parse_nat acc [] = Some acc"
| "parse_nat acc (c # cs) =
     (case digit_of c of None \<Rightarrow> None | Some d \<Rightarrow> parse_nat (10 * acc + d) cs)"

definition array_index :: "string \<Rightarrow> nat option" where
  "array_index s =
     (if s = [] \<or> (hd s = CHR ''0'' \<and> tl s \<noteq> []) then None
      else (case parse_nat 0 s of
              None \<Rightarrow> None
            | Some n \<Rightarrow> if n < 2 ^ 32 - 1 then Some n else None))"

definition comes_before :: "string \<Rightarrow> string \<Rightarrow> bool" where
  "comes_before k k' =
     (case array_index k of
        None \<Rightarrow> False
      | Some n \<Rightarrow> (case array_index k' of None \<Rightarrow> True | Some m \<Rightarrow> n < m))"

text \<open>Defining the own property \<open>k\<close>: an existing key keeps its place, a new array
  index goes to its place among the indices, any other new key goes last.\<close>

fun obj_set :: "string \<Rightarrow> 'v \<Rightarrow> (string \<times> 'v) list \<Rightarrow> (string \<times> 'v) list" where
  "obj_set k v [] = [(k, v)]"
| "obj_set k v ((k', v') # kvs) =
     (if k' = k then (k, v) # kvs
      else if comes_before k k' then (k, v) # (k', v') # kvs
      else (k', v') # obj_set k v kvs)"

text \<open>\<^verbatim>\<open>o[k] = v\<close> for a primitive \<open>v\<close>: it defines the own property, except that
  writing \<^verbatim>\<open>__proto__\<close> on an object that does not own that key reaches the inherited
  setter, which ignores a primitive.\<close>

definition js_assign :: "string \<Rightarrow> jsval \<Rightarrow> obj \<Rightarrow> obj" where
  "js_assign k v ob =
     (if k = ''__proto__'' \<and> obj_get ob k = None then ob else obj_set k v ob)"



text \<open>\<^verbatim>\<open>_.omitBy(o, p)\<close>: the properties for which \<open>p value key\<close> is false, in order.\<close>

definition omitBy :: "(string \<times> 'v) list \<Rightarrow> ('v \<Rightarrow> string \<Rightarrow> bool) \<Rightarrow> (string \<times> 'v) list" where
  "omitBy kvs p = filter (\<lambda>kv. \<not> p (snd kv) (fst kv)) kvs"

definition object_keys :: "(string \<times> 'v) list \<Rightarrow> string list" where
  "object_keys kvs = map fst kvs"



fun join_comma :: "string list \<Rightarrow> string" where
  "join_comma [] = []"
| "join_comma [s] = s"
| "join_comma (s # t # ss) = s @ '','' @ join_comma (t # ss)"

text \<open>\<^verbatim>\<open>String(v)\<close>. An array joins its elements with commas, null and undefined ones
  as the empty string; an ObjectId prints its hexadecimal form; an inherited member
  prints as the native function it is, \<^verbatim>\<open>__proto__\<close> as the object it is.\<close>

fun js_String :: "jsval \<Rightarrow> string" where
  "js_String JUndefined = ''undefined''"
| "js_String JNull = ''null''"
| "js_String (JBool b) = (if b then ''true'' else ''false'')"
| "js_String (JNum n) = number_string n"
| "js_String (JStr s) = s"
| "js_String (JObjectId h) = h"
| "js_String (JRegExp p f) = ''/'' @ p @ ''/'' @ f"
| "js_String (JInherited k) =
     (if k = ''__proto__'' then ''[object Object]''
      else if k = ''constructor'' then ''function Object() { [native code] }''
      else ''function '' @ k @ ''() { [native code] }'')"
| "js_String (JArr xs) =
     join_comma (map (\<lambda>x. if x = JUndefined \<or> x = JNull then [] else js_String x) xs)"
| "js_String (JObj kvs) = ''[object Object]''"

text \<open>\<^verbatim>\<open>s.split(' ')\<close>: the pieces between single spaces; two spaces in a row give
  an empty piece, and the empty string gives one empty piece.\<close>

fun split_space :: "string \<Rightarrow> string list" where
  "split_space [] = [[]]"
| "split_space (c # cs) =
     (if c = CHR '' '' then [] # split_space cs
      else (case split_space cs of [] \<Rightarrow> [[c]] | p # ps \<Rightarrow> (c # p) # ps))"


section \<open>Errors\<close>

datatype error =
    HttpException string nat
  | TypeError
  | SyntaxError
  | ValidationFailed string
  | PersistenceError string

section \<open>Actors and the permission guard\<close>

text \<open>
  The requesting user. \<open>can\<close> and \<open>getPermissions\<close> are members the controller tests
  for before calling them, so each may be absent; \<open>isRole\<close> is called untested.
\<close>

record user =
  u_id :: jsval
  u_can :: "(string \<Rightarrow> bool) option"
  u_getPermissions :: "string list option"
  u_isRole :: "(string option \<Rightarrow> bool) option"

text \<open>\<^verbatim>\<open>guard(user, permission)\<close>: throws 403 if
  \<^verbatim>\<open>user && user.can && !user.can(permission)\<close>.\<close>

definition guard :: "user option \<Rightarrow> string \<Rightarrow> error + unit" where
  "guard usr permission =
     (case usr of
        None \<Rightarrow> Inr ()
      | Some u \<Rightarrow>
          (case u_can u of
             None \<Rightarrow> Inr ()
           | Some can \<Rightarrow>
               if \<not> can permission then Inl (HttpException ''No privileges.'' 403)
               else Inr ()))"

section \<open>Field descriptors, queries and the storage engine\<close>

text \<open>
  A field descriptor of \<^verbatim>\<open>Model.fields\<close>. A flag is \<open>None\<close> when the descriptor does
  not set it; the controller suppresses a field only on \<^verbatim>\<open>=== false\<close>.
\<close>

record field =
  f_listable :: "bool option"
  f_editable :: "bool option"
  f_viewable :: "bool option"
  f_role :: "string option"
  f_ref :: "string option"
  f_label :: "string option"

type_synonym fields = "(string \<times> field) list"

type_synonym row = obj

text \<open>The parsed query of a request (\<^verbatim>\<open>ctx.query\<close>); \<open>page\<close> and \<open>perPage\<close> are
  doubles with integer values.\<close>

record query =
  q_where :: obj
  q_page :: "int option"
  q_perPage :: "int option"
  q_with :: "string list option"
  q_appends :: "string list option"
  q_withTrash :: bool

text \<open>
  The query builder that \<^verbatim>\<open>Model.query(q)\<close> returns and the chained calls fill in:
  the argument of \<^verbatim>\<open>Model.query\<close> (\<open>None\<close> when it is called without one), then
  \<^verbatim>\<open>select\<close>, \<^verbatim>\<open>skip\<close>, \<^verbatim>\<open>limit\<close>, \<^verbatim>\<open>ignoreScopes\<close> and \<^verbatim>\<open>_applyScopes\<close>.
\<close>

record builder =
  b_query :: "query option"
  b_select :: "string list option"
  b_skip :: "jsnum option"
  b_limit :: "int option"
  b_ignoreScopes :: "string list"
  b_applyScopes :: bool

definition Model_query :: "query option \<Rightarrow> builder" where
  "Model_query q =
     \<lparr>b_query = q, b_select = None, b_skip = None, b_limit = None,
      b_ignoreScopes = [], b_applyScopes = False\<rparr>"

text \<open>Every call that leaves the controller, in the order it is made.\<close>

datatype event =
    EvFetch builder
  | EvCount builder
  | EvFetchAppends row "string list"
  | EvBuildOptions
  | EvLabels
  | EvValidate obj
  | EvMerge obj
  | EvSave row
  | EvDelete row
  | EvBulkDelete builder
  | EvGroupCount jsval
  | EvFetchOptions jsval jsval obj "int option"
  | EvMkdir string
  | EvWriteFile string "jsval list list"
  | EvAttachment string string

text \<open>
  The collaborators the controller calls and does not define: the entity class with
  its storage engine, the validator, the configuration and the library functions. They
  are parameters of the model. Reads return a value; the validator and the writes may
  fail.
\<close>

record env =
  e_restrict_field :: "string option"
  e_label :: "string option"
  e_name :: string
  e_buildOptions :: "fields \<Rightarrow> fields"
  e_labels :: "fields \<Rightarrow> obj"
  e_fetch :: "builder \<Rightarrow> row list \<Rightarrow> row list"
  e_count :: "builder \<Rightarrow> row list \<Rightarrow> nat"
  e_fetchAppends :: "string list \<Rightarrow> row \<Rightarrow> row"
  e_toJSON :: "row \<Rightarrow> row"
  e_getValue :: "row \<Rightarrow> string \<Rightarrow> jsval"
  e_validate :: "row \<Rightarrow> obj \<Rightarrow> error option"
  e_merge :: "row \<Rightarrow> obj \<Rightarrow> row"
  e_save :: "row \<Rightarrow> row list \<Rightarrow> error + (row \<times> row list)"
  e_delete :: "row \<Rightarrow> row list \<Rightarrow> error + row list"
  e_bulkDelete :: "builder \<Rightarrow> row list \<Rightarrow> error + row list"
  e_groupCount :: "jsval \<Rightarrow> row list \<Rightarrow> obj list"
  e_fetchOptions :: "jsval \<Rightarrow> jsval \<Rightarrow> obj \<Rightarrow> int option \<Rightarrow> row list \<Rightarrow> obj list"
  e_titleize :: "string \<Rightarrow> string"
  e_json_parse :: "jsval \<Rightarrow> error + obj"
  e_regexp_ok :: "string \<Rightarrow> bool"
  e_parseInt :: "jsval \<Rightarrow> int option"
  e_tmpPath :: "string option \<Rightarrow> string"
  e_random :: string
  e_now :: string

text \<open>
  What a handler can change: the stored records, the entity's field table (which
  \<^verbatim>\<open>Model.buildOptions()\<close> may complete) and the log of calls made so far.
\<close>

record world =
  w_db :: "row list"
  w_fields :: fields
  w_log :: "event list"

definition emit :: "event \<Rightarrow> world \<Rightarrow> world" where
  "emit ev w = w\<lparr>w_log := w_log w @ [ev]\<rparr>"

text \<open>The request context: \<^verbatim>\<open>auth.user\<close>, \<^verbatim>\<open>params.resource\<close>, \<^verbatim>\<open>query\<close>,
  \<^verbatim>\<open>request.all()\<close> and the resolved record \<^verbatim>\<open>model\<close>.\<close>

record ctx =
  c_user :: "user option"
  c_resource :: string
  c_query :: query
  c_request :: obj
  c_model :: row

section \<open>The handlers\<close>

text \<open>\<^verbatim>\<open>processData\<close>: with \<^verbatim>\<open>query.appends\<close>, every row resolves its appended
  fields, one row after the other.\<close>

definition processData :: "env \<Rightarrow> query \<Rightarrow> row list \<Rightarrow> world \<Rightarrow> row list \<times> world" where
  "processData env q rows w =
     (case q_appends q of
        None \<Rightarrow> (rows, w)
      | Some appends \<Rightarrow>
          (map (e_fetchAppends env appends) rows,
           w\<lparr>w_log := w_log w @ map (\<lambda>r. EvFetchAppends r appends) rows\<rparr>))"

text \<open>\<^verbatim>\<open>(page - 1) * perPage\<close>, each operation rounded as doubles are; an undefined
  page makes it NaN.\<close>

definition js_offset :: "int option \<Rightarrow> int \<Rightarrow> jsnum" where
  "js_offset page perPage =
     (case page of None \<Rightarrow> NaN | Some p \<Rightarrow> js_times (fl (p - 1)) perPage)"

text \<open>
  \<^verbatim>\<open>Math.ceil(total / perPage)\<close> for a count \<open>total_n\<close>: division by zero gives
  Infinity, and NaN for \<open>0 / 0\<close>. For a count below \<open>2^53\<close> rounding the quotient
  does not move it onto or across an integer, so the ceiling is that of the exact
  quotient; a larger count is first the double nearest to it.
\<close>

definition js_ceil_div :: "nat \<Rightarrow> int \<Rightarrow> jsnum" where
  "js_ceil_div total_n perPage =
     (if perPage = 0 then (if total_n = 0 then NaN else Infinity)
      else if total_n < 2 ^ 53 then Num (- ((- int total_n) div perPage))
      else Num (ceil_quotient (fl_nat total_n) perPage))"


record result_page =
  rp_page :: "int option"
  rp_perPage :: int
  rp_total :: nat
  rp_lastPage :: jsnum
  rp_data :: "row list"

text \<open>The scoping step of \<^verbatim>\<open>index\<close>: a user whose permissions include
  \<^verbatim>\<open>'groups.@'\<close> has \<^verbatim>\<open>query.where[field]\<close> set to \<^verbatim>\<open>String(user._id)\<close>.\<close>

definition restrict_field :: "env \<Rightarrow> string" where
  "restrict_field env = (case e_restrict_field env of None \<Rightarrow> ''user_ids'' | Some f \<Rightarrow> f)"

definition scoped :: "user \<Rightarrow> bool" where
  "scoped u = (case u_getPermissions u of None \<Rightarrow> False | Some ps \<Rightarrow> ''groups.@'' \<in> set ps)"

definition index :: "env \<Rightarrow> ctx \<Rightarrow> world \<Rightarrow> (error + result_page) \<times> world" where
  "index env ctx w =
     (case guard (c_user ctx) (c_resource ctx @ ''.index'') of
        Inl e \<Rightarrow> (Inl e, w)
      | Inr _ \<Rightarrow>
          (case c_user ctx of
             None \<Rightarrow> (Inl TypeError, w)
           | Some u \<Rightarrow>
               let query =
                     (if scoped u
                      then (c_query ctx)\<lparr>q_where :=
                             js_assign (restrict_field env) (JStr (js_String (u_id u)))
                               (q_where (c_query ctx))\<rparr>
                      else c_query ctx);
                   fields = omitBy (w_fields w) (\<lambda>v k. f_listable v = Some False);
                   perPage = (case q_perPage query of None \<Rightarrow> 20 | Some n \<Rightarrow> n);
                   offset = js_offset (q_page query) perPage;
                   limit = perPage;
                   modelQuery0 = (Model_query (Some query))
                     \<lparr>b_select := Some (object_keys fields), b_skip := Some offset,
                      b_limit := Some limit\<rparr>;
                   modelQuery =
                     (if q_withTrash query
                      then modelQuery0\<lparr>b_ignoreScopes := [''softDeletes''], b_applyScopes := True\<rparr>
                      else modelQuery0);
                   rows = e_fetch env modelQuery (w_db w);
                   w1 = emit (EvFetch modelQuery) w;
                   total_n = e_count env (Model_query (Some query)) (w_db w1);
                   w2 = emit (EvCount (Model_query (Some query))) w1;
                   lastPage = js_ceil_div total_n perPage;
                   (data, w3) = processData env query rows w2
               in (Inr \<lparr>rp_page = q_page query, rp_perPage = perPage, rp_total = total_n,
                        rp_lastPage = lastPage, rp_data = data\<rparr>, w3)))"

text \<open>\<^verbatim>\<open>import\<close>: the guard, then always 400.\<close>

definition import :: "env \<Rightarrow> ctx \<Rightarrow> world \<Rightarrow> (error + unit) \<times> world" where
  "import env ctx w =
     (case guard (c_user ctx) (c_resource ctx @ ''.import'') of
        Inl e \<Rightarrow> (Inl e, w)
      | Inr _ \<Rightarrow> (Inl (HttpException ''Not implemented.'' 400), w))"

text \<open>
  \<^verbatim>\<open>export\<close>: the listable fields without \<^verbatim>\<open>_actions\<close>; the first segment of every
  \<^verbatim>\<open>ref\<close> is added to \<^verbatim>\<open>query.with\<close>; the rows are fetched with \<^verbatim>\<open>select\<close> only; the
  sheet is the header line followed by one line per row.
\<close>

definition ref_key :: "string \<Rightarrow> string" where
  "ref_key r = takeWhile (\<lambda>c. c \<noteq> CHR ''.'') r"

definition populate_of :: "fields \<Rightarrow> string list" where
  "populate_of fs =
     concat (map (\<lambda>kv. case f_ref (snd kv) of
                          None \<Rightarrow> []
                        | Some r \<Rightarrow> if r \<noteq> [] then [ref_key r] else []) fs)"

definition header_cell :: "env \<Rightarrow> string \<times> field \<Rightarrow> jsval" where
  "header_cell env kv =
     (case f_label (snd kv) of
        None \<Rightarrow> JStr (e_titleize env (fst kv))
      | Some l \<Rightarrow> if l \<noteq> [] then JStr l else JStr (e_titleize env (fst kv)))"

record attachment =
  at_path :: string
  at_name :: string

definition export :: "env \<Rightarrow> ctx \<Rightarrow> world \<Rightarrow> (error + attachment) \<times> world" where
  "export env ctx w =
     (case guard (c_user ctx) (c_resource ctx @ ''.export'') of
        Inl e \<Rightarrow> (Inl e, w)
      | Inr _ \<Rightarrow>
          let w1 = emit EvBuildOptions (w\<lparr>w_fields := e_buildOptions env (w_fields w)\<rparr>);
              fields =
                omitBy (w_fields w1) (\<lambda>v k. f_listable v = Some False \<or> k \<in> set [''_actions'']);
              populate = populate_of fields;
              query = (c_query ctx)
                \<lparr>q_with := Some ((case q_with (c_query ctx) of None \<Rightarrow> [] | Some ws \<Rightarrow> ws)
                                   @ populate)\<rparr>;
              modelQuery0 = (Model_query (Some query))\<lparr>b_select := Some (object_keys fields)\<rparr>;
              modelQuery =
                (if q_withTrash query
                 then modelQuery0\<lparr>b_ignoreScopes := [''softDeletes''], b_applyScopes := True\<rparr>
                 else modelQuery0);
              rows = e_fetch env modelQuery (w_db w1);
              w2 = emit (EvFetch modelQuery) w1;
              (data, w3) = processData env query rows w2;
              ret = map (header_cell env) fields
                    # map (\<lambda>r. map (\<lambda>k. e_getValue env r k) (object_keys fields))
                        (map (e_toJSON env) data);
              path = e_tmpPath env (Some (''export-'' @ e_random env @ ''.xlsx''));
              w4 = emit (EvMkdir (e_tmpPath env None)) w3;
              w5 = emit (EvWriteFile path ret) w4;
              name = (case e_label env of
                        None \<Rightarrow> e_name env
                      | Some l \<Rightarrow> if l \<noteq> [] then l else e_name env)
                     @ ''-'' @ e_now env @ ''.xlsx''
          in (Inr \<lparr>at_path = path, at_name = name\<rparr>, emit (EvAttachment path name) w5))"

text \<open>\<^verbatim>\<open>view\<close>: the viewable fields without \<^verbatim>\<open>_actions\<close>, the labels and the record.\<close>

record view_result =
  vr_labels :: obj
  vr_fields :: fields
  vr_model :: row

definition view :: "env \<Rightarrow> ctx \<Rightarrow> world \<Rightarrow> (error + view_result) \<times> world" where
  "view env ctx w =
     (case guard (c_user ctx) (c_resource ctx @ ''.view'') of
        Inl e \<Rightarrow> (Inl e, w)
      | Inr _ \<Rightarrow>
          let w1 = emit EvBuildOptions (w\<lparr>w_fields := e_buildOptions env (w_fields w)\<rparr>);
              labels = e_labels env (w_fields w1);
              w2 = emit EvLabels w1
          in (Inr \<lparr>vr_labels = labels,
                   vr_fields = omitBy (w_fields w2)
                     (\<lambda>v k. f_viewable v = Some False \<or> k \<in> set [''_actions'']),
                   vr_model = c_model ctx\<rparr>, w2))"

text \<open>
  \<^verbatim>\<open>_.omitBy\<close> with a predicate that can throw: the predicate runs on every property
  in order, and the first exception ends the call.
\<close>

fun omitByE ::
  "(string \<times> 'v) list \<Rightarrow> ('v \<Rightarrow> string \<Rightarrow> error + bool) \<Rightarrow> error + (string \<times> 'v) list" where
  "omitByE [] p = Inr []"
| "omitByE ((k, v) # kvs) p =
     (case p v k of
        Inl e \<Rightarrow> Inl e
      | Inr b \<Rightarrow>
          (case omitByE kvs p of
             Inl e \<Rightarrow> Inl e
           | Inr r \<Rightarrow> Inr (if b then r else (k, v) # r)))"

text \<open>\<^verbatim>\<open>fields[k].role\<close>: the role of a declared field; undefined for a key that names
  an inherited member, which has no \<^verbatim>\<open>role\<close>; a TypeError when \<^verbatim>\<open>fields[k]\<close> is
  undefined.\<close>

definition field_role :: "fields \<Rightarrow> string \<Rightarrow> error + string option" where
  "field_role fs k =
     (case obj_get fs k of
        Some fd \<Rightarrow> Inr (f_role fd)
      | None \<Rightarrow> if k \<in> set object_prototype_members then Inr None else Inl TypeError)"

text \<open>The predicate of \<^verbatim>\<open>store\<close>, \<^verbatim>\<open>!auth.user.isRole(fields[k].role)\<close>: a TypeError
  when \<^verbatim>\<open>auth.user\<close> or \<^verbatim>\<open>fields[k]\<close> is undefined or \<^verbatim>\<open>isRole\<close> is not there.\<close>

definition lacks_role :: "user option \<Rightarrow> fields \<Rightarrow> jsval \<Rightarrow> string \<Rightarrow> error + bool" where
  "lacks_role usr fs v k =
     (case usr of
        None \<Rightarrow> Inl TypeError
      | Some u \<Rightarrow>
          (case field_role fs k of
             Inl e \<Rightarrow> Inl e
           | Inr role \<Rightarrow>
               (case u_isRole u of
                  None \<Rightarrow> Inl TypeError
                | Some isRole \<Rightarrow> Inr (\<not> isRole role))))"


text \<open>\<^verbatim>\<open>await model.validate(data); model.merge(data); await model.save(); return model\<close>,
  the common tail of \<^verbatim>\<open>store\<close> and \<^verbatim>\<open>update\<close>.\<close>

definition validate_merge_save :: "env \<Rightarrow> row \<Rightarrow> obj \<Rightarrow> world \<Rightarrow> (error + row) \<times> world" where
  "validate_merge_save env model data w =
     (let w1 = emit (EvValidate data) w in
      case e_validate env model data of
        Some e \<Rightarrow> (Inl e, w1)
      | None \<Rightarrow>
          let merged = e_merge env model data;
              w2 = emit (EvMerge data) w1;
              w3 = emit (EvSave merged) w2
          in (case e_save env merged (w_db w3) of
                Inl e \<Rightarrow> (Inl e, w3)
              | Inr (saved, db') \<Rightarrow> (Inr saved, w3\<lparr>w_db := db'\<rparr>)))"

definition store :: "env \<Rightarrow> ctx \<Rightarrow> world \<Rightarrow> (error + row) \<times> world" where
  "store env ctx w =
     (case guard (c_user ctx) (c_resource ctx @ ''.create'') of
        Inl e \<Rightarrow> (Inl e, w)
      | Inr _ \<Rightarrow>
          let fields = w_fields w in
          (case omitByE (c_request ctx) (lacks_role (c_user ctx) fields) of
             Inl e \<Rightarrow> (Inl e, w)
           | Inr data \<Rightarrow> validate_merge_save env (c_model ctx) data w))"

definition show_h :: "env \<Rightarrow> ctx \<Rightarrow> world \<Rightarrow> (error + row) \<times> world" where
  "show_h env ctx w = (Inr (c_model ctx), w)"

definition update :: "env \<Rightarrow> ctx \<Rightarrow> world \<Rightarrow> (error + row) \<times> world" where
  "update env ctx w =
     (case guard (c_user ctx) (c_resource ctx @ ''.update'') of
        Inl e \<Rightarrow> (Inl e, w)
      | Inr _ \<Rightarrow>
          let data = c_request ctx in
          validate_merge_save env (c_model ctx) data w)"

record ack =
  success :: bool

definition destroy :: "env \<Rightarrow> ctx \<Rightarrow> world \<Rightarrow> (error + ack) \<times> world" where
  "destroy env ctx w =
     (case guard (c_user ctx) (c_resource ctx @ ''.delete'') of
        Inl e \<Rightarrow> (Inl e, w)
      | Inr _ \<Rightarrow>
          let w1 = emit (EvDelete (c_model ctx)) w in
          (case e_delete env (c_model ctx) (w_db w1) of
             Inl e \<Rightarrow> (Inl e, w1)
           | Inr db' \<Rightarrow> (Inr \<lparr>success = True\<rparr>, w1\<lparr>w_db := db'\<rparr>)))"

text \<open>\<^verbatim>\<open>destroyAll\<close>: \<^verbatim>\<open>Model.query()\<close> is called without an argument; the context's
  \<^verbatim>\<open>query\<close> is not read.\<close>

definition destroyAll :: "env \<Rightarrow> ctx \<Rightarrow> world \<Rightarrow> (error + ack) \<times> world" where
  "destroyAll env ctx w =
     (case guard (c_user ctx) (c_resource ctx @ ''.delete_all'') of
        Inl e \<Rightarrow> (Inl e, w)
      | Inr _ \<Rightarrow>
          let w1 = emit (EvBulkDelete (Model_query None)) w in
          (case e_bulkDelete env (Model_query None) (w_db w1) of
             Inl e \<Rightarrow> (Inl e, w1)
           | Inr db' \<Rightarrow> (Inr \<lparr>success = True\<rparr>, w1\<lparr>w_db := db'\<rparr>)))"

text \<open>
  \<^verbatim>\<open>options\<close>. A destructuring default applies when the parameter is undefined.
  \<^verbatim>\<open>JSON.parse\<close> is the environment's; the constraint it returns is an object.
\<close>

definition dflt :: "jsval \<Rightarrow> jsval option \<Rightarrow> jsval" where
  "dflt d v = (case v of None \<Rightarrow> d | Some JUndefined \<Rightarrow> d | Some x \<Rightarrow> x)"






text \<open>
  \<^verbatim>\<open>stat\<close>: \<^verbatim>\<open>_.keyBy(rows, '_id')\<close> keys every group row by \<^verbatim>\<open>String(row._id)\<close>, a later
  row replacing an earlier one of the same key; \<^verbatim>\<open>_.mapValues(.., 'count')\<close> keeps the
  count of each.
\<close>

definition get_prop :: "obj \<Rightarrow> string \<Rightarrow> jsval" where
  "get_prop ob k = (case obj_get ob k of None \<Rightarrow> JUndefined | Some v \<Rightarrow> v)"

definition keyBy :: "obj list \<Rightarrow> string \<Rightarrow> (string \<times> obj) list" where
  "keyBy items k = foldl (\<lambda>acc item. obj_set (js_String (get_prop item k)) item acc) [] items"

definition mapValues :: "(string \<times> obj) list \<Rightarrow> string \<Rightarrow> obj" where
  "mapValues ob k = map (\<lambda>kv. (fst kv, get_prop (snd kv) k)) ob"

record dataset =
  ds_backgroundColor :: "string list"
  ds_data :: "jsval list"

record chart =
  ch_labels :: "string list"
  ch_datasets :: "dataset list"

definition stat :: "env \<Rightarrow> ctx \<Rightarrow> world \<Rightarrow> (error + chart) \<times> world" where
  "stat env ctx w =
     (case guard (c_user ctx) (c_resource ctx @ ''.stat'') of
        Inl e \<Rightarrow> (Inl e, w)
      | Inr _ \<Rightarrow>
          let group = dflt (JStr ''os'') (obj_get (c_request ctx) ''group'');
              counts = e_groupCount env group (w_db w);
              w1 = emit (EvGroupCount group) w;
              data = mapValues (keyBy counts ''_id'') ''count''
          in (Inr \<lparr>ch_labels = map fst data,
                   ch_datasets =
                     [\<lparr>ds_backgroundColor = [''#41B883'', ''#E46651'', ''#00D8FF'', ''#DD1B16''],
                       ds_data = map snd data\<rparr>]\<rparr>, w1))"

section \<open>An in-memory storage engine\<close>

text \<open>
  A concrete environment on which the handlers can be evaluated: records are kept in a
  list, a query selects the records that carry every constraint of its \<^verbatim>\<open>where\<close> as a
  field value, and a builder made without a query selects every record.
\<close>

definition mem_matches :: "query \<Rightarrow> row \<Rightarrow> bool" where
  "mem_matches q r = list_all (\<lambda>kv. obj_get r (fst kv) = Some (snd kv)) (q_where q)"

definition mem_selected :: "builder \<Rightarrow> row \<Rightarrow> bool" where
  "mem_selected b r = (case b_query b of None \<Rightarrow> True | Some q \<Rightarrow> mem_matches q r)"

definition mem_fetch :: "builder \<Rightarrow> row list \<Rightarrow> row list" where
  "mem_fetch b db =
     (let sel = filter (mem_selected b) db;
          skipped = (case b_skip b of Some (Num n) \<Rightarrow> drop (nat n) sel | _ \<Rightarrow> sel)
      in case b_limit b of None \<Rightarrow> skipped | Some n \<Rightarrow> take (nat n) skipped)"

text \<open>A titleize for the keys of the examples: underscores become spaces and every
  word starts with a capital.\<close>

definition upper_char :: "char \<Rightarrow> char" where
  "upper_char c =
     (case map_of (zip ''abcdefghijklmnopqrstuvwxyz'' ''ABCDEFGHIJKLMNOPQRSTUVWXYZ'') c of
        None \<Rightarrow> c
      | Some u \<Rightarrow> u)"

fun mem_titleize :: "bool \<Rightarrow> string \<Rightarrow> string" where
  "mem_titleize cap [] = []"
| "mem_titleize cap (c # cs) =
     (if c = CHR ''_'' then CHR '' '' # mem_titleize True cs
      else (if cap then upper_char c else c) # mem_titleize False cs)"

definition mem_env :: env where
  "mem_env =
     \<lparr>e_restrict_field = None,
      e_label = None,
      e_name = ''Post'',
      e_buildOptions = (\<lambda>fs. fs),
      e_labels = (\<lambda>fs. map (\<lambda>kv. (fst kv, JStr (fst kv))) fs),
      e_fetch = mem_fetch,
      e_count = (\<lambda>b db. length (filter (mem_selected b) db)),
      e_fetchAppends = (\<lambda>names r. r),
      e_toJSON = (\<lambda>r. r),
      e_getValue = get_prop,
      e_validate = (\<lambda>m d. None),
      e_merge = (\<lambda>m d. foldl (\<lambda>r kv. obj_set (fst kv) (snd kv) r) m d),
      e_save = (\<lambda>m db. Inr (m, db @ [m])),
      e_delete = (\<lambda>m db. Inr (remove1 m db)),
      e_bulkDelete = (\<lambda>b db. Inr (filter (\<lambda>r. \<not> mem_selected b r) db)),
      e_groupCount = (\<lambda>g db. []),
      e_fetchOptions = (\<lambda>value text wh n db. []),
      e_titleize = mem_titleize True,
      e_json_parse = (\<lambda>v. Inr []),
      e_regexp_ok = (\<lambda>p. True),
      e_parseInt = (\<lambda>v. case v of JNum n \<Rightarrow> Some n | _ \<Rightarrow> None),
      e_tmpPath = (\<lambda>f. case f of None \<Rightarrow> ''tmp'' | Some n \<Rightarrow> ''tmp/'' @ n),
      e_random = ''0.5'',
      e_now = ''now''\<rparr>"

definition plain_field :: field where
  "plain_field =
     \<lparr>f_listable = None, f_editable = None, f_viewable = None, f_role = None,
      f_ref = None, f_label = None\<rparr>"

definition demo_fields :: fields where
  "demo_fields =
     [(''title'', plain_field\<lparr>f_label := Some ''Title''\<rparr>),
      (''locked'', plain_field\<lparr>f_editable := Some False\<rparr>),
      (''secret'', plain_field\<lparr>f_listable := Some False, f_role := Some ''admin''\<rparr>),
      (''author_name'', plain_field\<lparr>f_ref := Some ''users.name'', f_label := Some []\<rparr>),
      (''_actions'', plain_field)]"

definition demo_db :: "row list" where
  "demo_db =
     [[(''title'', JStr ''a''), (''status'', JStr ''draft''), (''user_ids'', JStr ''7'')],
      [(''title'', JStr ''b''), (''status'', JStr ''live''), (''user_ids'', JStr ''8'')]]"

definition demo_world :: world where
  "demo_world = \<lparr>w_db = demo_db, w_fields = demo_fields, w_log = []\<rparr>"

text \<open>A user with the given capability check and permission list, who has the role
  \<open>editor\<close> and passes every field that asks for no role.\<close>

definition demo_user :: "(string \<Rightarrow> bool) \<Rightarrow> string list \<Rightarrow> user" where
  "demo_user can ps =
     \<lparr>u_id = JNum 7, u_can = Some can, u_getPermissions = Some ps,
      u_isRole = Some (\<lambda>r. r = None \<or> r = Some ''editor'')\<rparr>"

definition demo_query :: query where
  "demo_query =
     \<lparr>q_where = [(''status'', JStr ''draft'')], q_page = Some 2, q_perPage = None,
      q_with = None, q_appends = None, q_withTrash = False\<rparr>"

definition demo_ctx :: "user \<Rightarrow> query \<Rightarrow> obj \<Rightarrow> ctx" where
  "demo_ctx u q payload =
     \<lparr>c_user = Some u, c_resource = ''posts'', c_query = q, c_request = payload,
      c_model = []\<rparr>"

section \<open>The calls of a run\<close>

text \<open>The calls logged between two states of the world, and the query builder a
  storage call carries.\<close>

definition issued :: "world \<Rightarrow> world \<Rightarrow> event list" where
  "issued w w' = drop (length (w_log w)) (w_log w')"


section \<open>Basic facts\<close>




lemma guard_cases:
  "guard usr p = Inr () \<or> guard usr p = Inl (HttpException ''No privileges.'' 403)"
  by (auto simp: guard_def split: option.splits)

lemma processData_log:
  "w_log (snd (processData env q rows w)) =
     w_log w @ (case q_appends q of None \<Rightarrow> [] | Some a \<Rightarrow> map (\<lambda>r. EvFetchAppends r a) rows)"
  by (simp add: processData_def split: option.splits)

lemma processData_rows:
  "fst (processData env q rows w) =
     (case q_appends q of None \<Rightarrow> rows | Some a \<Rightarrow> map (e_fetchAppends env a) rows)"
  by (simp add: processData_def split: option.splits)



lemma export_run:
  assumes "guard (c_user ctx) (c_resource ctx @ ''.export'') = Inr ()"
  shows "export env ctx w =
     (let fs = filter (\<lambda>kv. f_listable (snd kv) \<noteq> Some False \<and> fst kv \<noteq> ''_actions'')
                 (e_buildOptions env (w_fields w));
          q = (c_query ctx)
                \<lparr>q_with := Some ((case q_with (c_query ctx) of None \<Rightarrow> [] | Some ws \<Rightarrow> ws)
                                   @ populate_of fs)\<rparr>;
          b = \<lparr>b_query = Some q, b_select = Some (map fst fs), b_skip = None, b_limit = None,
               b_ignoreScopes = (if q_withTrash (c_query ctx) then [''softDeletes''] else []),
               b_applyScopes = q_withTrash (c_query ctx)\<rparr>;
          rows = e_fetch env b (w_db w);
          data = (case q_appends (c_query ctx) of
                    None \<Rightarrow> rows
                  | Some a \<Rightarrow> map (e_fetchAppends env a) rows);
          path = e_tmpPath env (Some (''export-'' @ e_random env @ ''.xlsx''));
          name = (case e_label env of
                    None \<Rightarrow> e_name env
                  | Some l \<Rightarrow> if l \<noteq> [] then l else e_name env)
                 @ ''-'' @ e_now env @ ''.xlsx''
      in (Inr \<lparr>at_path = path, at_name = name\<rparr>,
          w\<lparr>w_fields := e_buildOptions env (w_fields w),
            w_log := w_log w @ [EvBuildOptions, EvFetch b]
              @ (case q_appends (c_query ctx) of
                   None \<Rightarrow> []
                 | Some a \<Rightarrow> map (\<lambda>r. EvFetchAppends r a) rows)
              @ [EvMkdir (e_tmpPath env None),
                 EvWriteFile path
                   (map (header_cell env) fs
                    # map (\<lambda>r. map (e_getValue env (e_toJSON env r)) (map fst fs)) data),
                 EvAttachment path name]\<rparr>))"
  using assms
  by (cases "q_withTrash (c_query ctx)"; cases "q_appends (c_query ctx)")
     (simp_all add: export_def Let_def emit_def processData_def Model_query_def omitBy_def
        object_keys_def de_Morgan_disj o_def)

lemma bits_le: "n < 2 ^ k \<Longrightarrow> bits n \<le> k"
proof (induction k arbitrary: n)
  case 0
  then show ?case by (simp add: bits.simps)
next
  case (Suc k)
  show ?case
  proof (cases "n = 0")
    case True
    then show ?thesis by (simp add: bits.simps)
  next
    case False
    from Suc.prems have "n div 2 < 2 ^ k" by simp
    then have "bits (n div 2) \<le> k" by (rule Suc.IH)
    with False show ?thesis by (subst bits.simps) simp
  qed
qed

lemma bits_ge: "2 ^ k \<le> n \<Longrightarrow> Suc k \<le> bits n"
proof (induction k arbitrary: n)
  case 0
  then show ?case by (subst bits.simps) simp
next
  case (Suc k)
  then have "2 ^ k \<le> n div 2" by simp
  then have "Suc k \<le> bits (n div 2)" by (rule Suc.IH)
  moreover have "(0::nat) < 2 ^ Suc k" by simp
  with Suc.prems have "n \<noteq> 0" by linarith
  ultimately show ?case by (subst bits.simps) simp
qed

lemma bits_eq: "2 ^ k \<le> n \<Longrightarrow> n < 2 ^ Suc k \<Longrightarrow> bits n = Suc k"
  using bits_ge [of k n] bits_le [of n "Suc k"] by simp

lemma fl_nat_exact: "n \<le> 2 ^ 53 \<Longrightarrow> fl_nat n = n"
proof (cases "n = 2 ^ 53")
  case True
  have "bits (2 ^ 53) = Suc 53"
    by (rule bits_eq) simp_all
  with True show ?thesis by (simp add: fl_nat_def Let_def)
next
  case False
  assume "n \<le> 2 ^ 53"
  with False have "n < 2 ^ 53" by simp
  then have "bits n \<le> 53" by (rule bits_le)
  then show ?thesis by (simp add: fl_nat_def Let_def)
qed

lemma fl_exact: "\<bar>i\<bar> \<le> 2 ^ 53 \<Longrightarrow> fl i = Num i"
proof -
  assume a: "\<bar>i\<bar> \<le> 2 ^ 53"
  then have "nat \<bar>i\<bar> \<le> 2 ^ 53" by (simp add: nat_le_iff)
  then have e: "fl_nat (nat \<bar>i\<bar>) = nat \<bar>i\<bar>" by (rule fl_nat_exact)
  have "(2::nat) ^ 53 < 2 ^ 1024" by simp
  with \<open>nat \<bar>i\<bar> \<le> 2 ^ 53\<close> have "\<not> (2::nat) ^ 1024 \<le> nat \<bar>i\<bar>" by linarith
  with e show ?thesis by (simp add: fl_def Let_def)
qed

lemma js_offset_rounds: "js_offset (Some (2 ^ 53)) 20 = Num 180143985094819808"
proof -
  have b: "bits 180143985094819820 = Suc 57"
    by (rule bits_eq) simp_all
  have "fl_nat 180143985094819820 = 180143985094819808"
    by (simp add: fl_nat_def b Let_def)
  then have "fl 180143985094819820 = Num 180143985094819808"
    by (simp add: fl_def Let_def)
  moreover have "fl (2 ^ 53 - 1) = Num (2 ^ 53 - 1)"
    by (rule fl_exact) simp
  ultimately show ?thesis
    by (simp add: js_offset_def js_times_def)
qed






lemma split_space_pieces: "p \<in> set (split_space t) \<Longrightarrow> CHR '' '' \<notin> set p"
  by (induction t arbitrary: p) (auto split: list.splits if_splits)


lemma field_role_error: "field_role fs k = Inl e \<Longrightarrow> e = TypeError"
  by (auto simp: field_role_def split: option.splits if_splits)

lemma lacks_role_error: "lacks_role usr fs v k = Inl e \<Longrightarrow> e = TypeError"
  by (auto simp: lacks_role_def split: option.splits sum.splits dest: field_role_error)

lemma lacks_role_unknown:
  "obj_get fs k = None \<Longrightarrow> k \<notin> set object_prototype_members \<Longrightarrow>
   lacks_role usr fs v k = Inl TypeError"
  by (simp add: lacks_role_def field_role_def split: option.splits)

lemma omitByE_lacks_role_error:
  "omitByE kvs (lacks_role usr fs) = Inl e \<Longrightarrow> e = TypeError"
proof (induction kvs)
  case Nil
  then show ?case by simp
next
  case (Cons kv kvs)
  obtain k v where kv: "kv = (k, v)" by (cases kv)
  show ?case
  proof (cases "lacks_role usr fs v k")
    case (Inl e')
    with Cons.prems kv show ?thesis by (auto dest: lacks_role_error)
  next
    case (Inr b)
    with Cons kv show ?thesis by (auto split: sum.splits)
  qed
qed

lemma omitByE_unknown_key:
  assumes "(k, v) \<in> set kvs" and "obj_get fs k = None"
    and "k \<notin> set object_prototype_members"
  shows "omitByE kvs (lacks_role usr fs) = Inl TypeError"
  using assms(1)
proof (induction kvs)
  case Nil
  then show ?case by simp
next
  case (Cons kv kvs)
  obtain k' v' where kv: "kv = (k', v')" by (cases kv)
  show ?case
  proof (cases "lacks_role usr fs v' k'")
    case (Inl e)
    then have "e = TypeError" by (rule lacks_role_error)
    with Inl kv show ?thesis by simp
  next
    case (Inr b)
    then have "k' \<noteq> k" using lacks_role_unknown [OF assms(2,3), of usr v'] by auto
    with Cons kv have "omitByE kvs (lacks_role usr fs) = Inl TypeError" by auto
    with Inr kv show ?thesis by simp
  qed
qed

lemma omitByE_declared:
  assumes "u_isRole u = Some isRole" and "\<forall>kv \<in> set kvs. obj_get fs (fst kv) \<noteq> None"
  shows "omitByE kvs (lacks_role (Some u) fs) =
     Inr (filter (\<lambda>kv. case obj_get fs (fst kv) of None \<Rightarrow> False | Some fd \<Rightarrow> isRole (f_role fd)) kvs)"
  using assms
  by (induction kvs) (auto simp: lacks_role_def field_role_def split: option.splits)


lemma validate_merge_save_log:
  "issued w (snd (validate_merge_save env model data w)) =
     EvValidate data #
       (case e_validate env model data of
          Some e \<Rightarrow> []
        | None \<Rightarrow> [EvMerge data, EvSave (e_merge env model data)])"
  by (simp add: validate_merge_save_def Let_def emit_def issued_def split: option.splits sum.splits prod.splits)


lemma header_cell_eq:
  "header_cell env =
     (\<lambda>kv. case f_label (snd kv) of
             None \<Rightarrow> JStr (e_titleize env (fst kv))
           | Some l \<Rightarrow> if l = [] then JStr (e_titleize env (fst kv)) else JStr l)"
  by (rule ext) (simp add: header_cell_def split: option.splits)

lemmas demo_defs =
  demo_ctx_def demo_user_def demo_query_def demo_world_def demo_db_def demo_fields_def
  plain_field_def mem_env_def mem_fetch_def mem_selected_def mem_matches_def
  comes_before_def array_index_def digit_of_def upper_char_def

section \<open>The guard\<close>

text \<open>
  C2. guard(actor, permission) fails, with the 403 error, exactly when the actor exists,
  has a capability check \<open>can\<close>, and that check returns false for the permission; for an
  absent actor, an actor without \<open>can\<close>, and an actor whose \<open>can\<close> returns true, guard
  returns normally.
\<close>

theorem guard_unauthorized_iff:
  "(guard usr permission = Inl (HttpException ''No privileges.'' 403)) =
     (\<exists>u can. usr = Some u \<and> u_can u = Some can \<and> can permission = False) \<and>
   (guard usr permission = Inr ()) =
     (usr = None \<or>
      (\<exists>u. usr = Some u \<and>
         (u_can u = None \<or> (\<exists>can. u_can u = Some can \<and> can permission = True))))"
  by (auto simp: guard_def split: option.splits)

theorem guard_unauthorized_iff_witness:
  "guard (Some (demo_user (\<lambda>p. p = ''posts.index'') [])) ''posts.delete''
     = Inl (HttpException ''No privileges.'' 403) \<and>
   guard (Some (demo_user (\<lambda>p. p = ''posts.index'') [])) ''posts.index'' = Inr () \<and>
   guard (Some ((demo_user (\<lambda>p. False) [])\<lparr>u_can := None\<rparr>)) ''posts.delete'' = Inr () \<and>
   guard None ''posts.delete'' = Inr ()"
  using guard_unauthorized_iff [of "Some (demo_user (\<lambda>p. p = ''posts.index'') [])" "''posts.delete''"]
    guard_unauthorized_iff [of "Some (demo_user (\<lambda>p. p = ''posts.index'') [])" "''posts.index''"]
    guard_unauthorized_iff [of "Some ((demo_user (\<lambda>p. False) [])\<lparr>u_can := None\<rparr>)" "''posts.delete''"]
    guard_unauthorized_iff [of None "''posts.delete''"]
  by (simp add: demo_user_def)

text \<open>
  C1. For an actor whose capability check exists and returns false for the permission
  a guarded handler asks for (\<open>resource.index\<close>, \<open>.import\<close>, \<open>.export\<close>, \<open>.view\<close>,
  \<open>.create\<close>, \<open>.update\<close>, \<open>.delete\<close>, \<open>.delete_all\<close>, \<open>.stat\<close>), the handler fails with
  the 403 error and leaves the world as it was: no record read or changed, the field
  table untouched, no call logged.
\<close>

theorem guarded_handlers_unauthorized:
  assumes "c_user ctx = Some u" and "u_can u = Some can"
  shows
    "(\<not> can (c_resource ctx @ ''.index'') \<longrightarrow>
        index env ctx w = (Inl (HttpException ''No privileges.'' 403), w)) \<and>
     (\<not> can (c_resource ctx @ ''.import'') \<longrightarrow>
        import env ctx w = (Inl (HttpException ''No privileges.'' 403), w)) \<and>
     (\<not> can (c_resource ctx @ ''.export'') \<longrightarrow>
        export env ctx w = (Inl (HttpException ''No privileges.'' 403), w)) \<and>
     (\<not> can (c_resource ctx @ ''.view'') \<longrightarrow>
        view env ctx w = (Inl (HttpException ''No privileges.'' 403), w)) \<and>
     (\<not> can (c_resource ctx @ ''.create'') \<longrightarrow>
        store env ctx w = (Inl (HttpException ''No privileges.'' 403), w)) \<and>
     (\<not> can (c_resource ctx @ ''.update'') \<longrightarrow>
        update env ctx w = (Inl (HttpException ''No privileges.'' 403), w)) \<and>
     (\<not> can (c_resource ctx @ ''.delete'') \<longrightarrow>
        destroy env ctx w = (Inl (HttpException ''No privileges.'' 403), w)) \<and>
     (\<not> can (c_resource ctx @ ''.delete_all'') \<longrightarrow>
        destroyAll env ctx w = (Inl (HttpException ''No privileges.'' 403), w)) \<and>
     (\<not> can (c_resource ctx @ ''.stat'') \<longrightarrow>
        stat env ctx w = (Inl (HttpException ''No privileges.'' 403), w))"
  using assms
  by (simp add: guard_def index_def import_def export_def view_def store_def update_def
      destroy_def destroyAll_def stat_def)

theorem guarded_handlers_unauthorized_witness:
  "c_user (demo_ctx (demo_user (\<lambda>p. False) []) demo_query [(''title'', JStr ''t'')])
     = Some (demo_user (\<lambda>p. False) []) \<and>
   index mem_env (demo_ctx (demo_user (\<lambda>p. False) []) demo_query [(''title'', JStr ''t'')]) demo_world
     = (Inl (HttpException ''No privileges.'' 403), demo_world) \<and>
   import mem_env (demo_ctx (demo_user (\<lambda>p. False) []) demo_query [(''title'', JStr ''t'')]) demo_world
     = (Inl (HttpException ''No privileges.'' 403), demo_world) \<and>
   export mem_env (demo_ctx (demo_user (\<lambda>p. False) []) demo_query [(''title'', JStr ''t'')]) demo_world
     = (Inl (HttpException ''No privileges.'' 403), demo_world) \<and>
   view mem_env (demo_ctx (demo_user (\<lambda>p. False) []) demo_query [(''title'', JStr ''t'')]) demo_world
     = (Inl (HttpException ''No privileges.'' 403), demo_world) \<and>
   store mem_env (demo_ctx (demo_user (\<lambda>p. False) []) demo_query [(''title'', JStr ''t'')]) demo_world
     = (Inl (HttpException ''No privileges.'' 403), demo_world) \<and>
   update mem_env (demo_ctx (demo_user (\<lambda>p. False) []) demo_query [(''title'', JStr ''t'')]) demo_world
     = (Inl (HttpException ''No privileges.'' 403), demo_world) \<and>
   destroy mem_env (demo_ctx (demo_user (\<lambda>p. False) []) demo_query [(''title'', JStr ''t'')]) demo_world
     = (Inl (HttpException ''No privileges.'' 403), demo_world) \<and>
   destroyAll mem_env (demo_ctx (demo_user (\<lambda>p. False) []) demo_query [(''title'', JStr ''t'')]) demo_world
     = (Inl (HttpException ''No privileges.'' 403), demo_world) \<and>
   stat mem_env (demo_ctx (demo_user (\<lambda>p. False) []) demo_query [(''title'', JStr ''t'')]) demo_world
     = (Inl (HttpException ''No privileges.'' 403), demo_world)"
proof -
  have u: "c_user (demo_ctx (demo_user (\<lambda>p. False) []) demo_query [(''title'', JStr ''t'')])
     = Some (demo_user (\<lambda>p. False) [])"
    by (simp add: demo_ctx_def)
  have c: "u_can (demo_user (\<lambda>p. False) []) = Some (\<lambda>p. False)"
    by (simp add: demo_user_def)
  show ?thesis
    using u guarded_handlers_unauthorized [OF u c, of mem_env demo_world] by simp
qed

section \<open>The list handler\<close>





section \<open>The export handler\<close>

text \<open>
  C9. When export runs (the guard passes), the fetch is made with \<open>select\<close> only, no
  skip and no limit; the header line of the sheet has one cell for every field of the
  completed field table with \<open>listable\<close> not false and a key other than \<open>_actions\<close>, the
  cell being the field's label or, when the label is missing or empty, the titleized
  key; and after it comes one line for every fetched record, in the order of the fetch,
  with one cell per such field.
\<close>

theorem export_sheet:
  assumes "guard (c_user ctx) (c_resource ctx @ ''.export'') = Inr ()"
  shows
    "\<exists>fs b data path name header lines.
       fs = filter (\<lambda>kv. f_listable (snd kv) \<noteq> Some False \<and> fst kv \<noteq> ''_actions'')
              (e_buildOptions env (w_fields w)) \<and>
       issued w (snd (export env ctx w)) =
         [EvBuildOptions, EvFetch b]
         @ (case q_appends (c_query ctx) of
              None \<Rightarrow> []
            | Some a \<Rightarrow> map (\<lambda>r. EvFetchAppends r a) (e_fetch env b (w_db w)))
         @ [EvMkdir (e_tmpPath env None), EvWriteFile path (header # lines),
            EvAttachment path name] \<and>
       fst (export env ctx w) = Inr \<lparr>at_path = path, at_name = name\<rparr> \<and>
       b_skip b = None \<and> b_limit b = None \<and> b_select b = Some (map fst fs) \<and>
       data = (case q_appends (c_query ctx) of
                 None \<Rightarrow> e_fetch env b (w_db w)
               | Some a \<Rightarrow> map (e_fetchAppends env a) (e_fetch env b (w_db w))) \<and>
       header =
         map (\<lambda>kv. case f_label (snd kv) of
                     None \<Rightarrow> JStr (e_titleize env (fst kv))
                   | Some l \<Rightarrow> if l = [] then JStr (e_titleize env (fst kv)) else JStr l) fs \<and>
       length header = length fs \<and>
       lines = map (\<lambda>r. map (e_getValue env (e_toJSON env r)) (map fst fs)) data \<and>
       length lines = length (e_fetch env b (w_db w))"
  unfolding export_run [OF assms] Let_def header_cell_eq
  by (simp add: issued_def split: option.split)

theorem export_sheet_witness:
  "guard (c_user (demo_ctx (demo_user (\<lambda>p. True) []) demo_query []))
     (c_resource (demo_ctx (demo_user (\<lambda>p. True) []) demo_query []) @ ''.export'') = Inr () \<and>
   issued demo_world
     (snd (export mem_env (demo_ctx (demo_user (\<lambda>p. True) []) demo_query []) demo_world))
     = [EvBuildOptions,
        EvFetch \<lparr>b_query = Some (demo_query\<lparr>q_with := Some [''users'']\<rparr>),
                 b_select = Some [''title'', ''locked'', ''author_name''],
                 b_skip = None, b_limit = None, b_ignoreScopes = [], b_applyScopes = False\<rparr>,
        EvMkdir ''tmp'',
        EvWriteFile ''tmp/export-0.5.xlsx''
          [[JStr ''Title'', JStr ''Locked'', JStr ''Author Name''],
           [JStr ''a'', JUndefined, JUndefined]],
        EvAttachment ''tmp/export-0.5.xlsx'' ''Post-now.xlsx'']"
proof -
  have g: "guard (c_user (demo_ctx (demo_user (\<lambda>p. True) []) demo_query []))
     (c_resource (demo_ctx (demo_user (\<lambda>p. True) []) demo_query []) @ ''.export'') = Inr ()"
    by (simp add: guard_def demo_ctx_def demo_user_def)
  show ?thesis
    using g export_sheet [OF g, where env = mem_env and w = demo_world]
    by (simp add: export_def demo_defs Let_def emit_def issued_def processData_def
      omitBy_def object_keys_def Model_query_def populate_of_def ref_key_def header_cell_def
      get_prop_def)
qed

section \<open>The mutation handlers\<close>

text \<open>
  C4, as the code has it. The claim that a field with \<open>editable: false\<close> is removed from
  the payload before validation fails: store validates, merges and saves such a field.
\<close>

theorem store_keeps_uneditable_counterexample:
  "obj_get (w_fields demo_world) ''locked'' = Some (plain_field\<lparr>f_editable := Some False\<rparr>) \<and>
   issued demo_world
     (snd (store mem_env (demo_ctx (demo_user (\<lambda>p. True) []) demo_query [(''locked'', JStr ''x'')])
             demo_world))
     = [EvValidate [(''locked'', JStr ''x'')], EvMerge [(''locked'', JStr ''x'')],
        EvSave [(''locked'', JStr ''x'')]]"
  by (simp add: store_def guard_def demo_defs lacks_role_def field_role_def
      validate_merge_save_def Let_def emit_def issued_def)

text \<open>
  C4, amended. When store runs for a user with \<open>isRole\<close> and a payload whose keys are
  all declared fields, the payload that is validated, and then merged and saved, is the
  submitted one without exactly the fields whose required role the actor lacks; the
  \<open>editable\<close> flag plays no part.
\<close>

theorem store_filters_by_role:
  assumes "guard (c_user ctx) (c_resource ctx @ ''.create'') = Inr ()"
    and "c_user ctx = Some u" and "u_isRole u = Some isRole"
    and "\<forall>kv \<in> set (c_request ctx). obj_get (w_fields w) (fst kv) \<noteq> None"
  shows
    "\<exists>data.
       data = filter (\<lambda>kv. case obj_get (w_fields w) (fst kv) of
                             None \<Rightarrow> False
                           | Some fd \<Rightarrow> isRole (f_role fd)) (c_request ctx) \<and>
       issued w (snd (store env ctx w)) =
         EvValidate data #
           (case e_validate env (c_model ctx) data of
              Some e \<Rightarrow> []
            | None \<Rightarrow> [EvMerge data, EvSave (e_merge env (c_model ctx) data)])"
  using assms(1) omitByE_declared [OF assms(3,4)] assms(2)
  by (simp add: store_def validate_merge_save_log)

theorem store_filters_by_role_witness:
  "guard (c_user (demo_ctx (demo_user (\<lambda>p. True) []) demo_query
            [(''title'', JStr ''t''), (''secret'', JStr ''s''), (''locked'', JStr ''x'')]))
     (c_resource (demo_ctx (demo_user (\<lambda>p. True) []) demo_query
            [(''title'', JStr ''t''), (''secret'', JStr ''s''), (''locked'', JStr ''x'')]) @ ''.create'')
     = Inr () \<and>
   issued demo_world
     (snd (store mem_env (demo_ctx (demo_user (\<lambda>p. True) []) demo_query
            [(''title'', JStr ''t''), (''secret'', JStr ''s''), (''locked'', JStr ''x'')]) demo_world))
     = [EvValidate [(''title'', JStr ''t''), (''locked'', JStr ''x'')],
        EvMerge [(''title'', JStr ''t''), (''locked'', JStr ''x'')],
        EvSave [(''title'', JStr ''t''), (''locked'', JStr ''x'')]]"
proof -
  let ?ctx = "demo_ctx (demo_user (\<lambda>p. True) []) demo_query
            [(''title'', JStr ''t''), (''secret'', JStr ''s''), (''locked'', JStr ''x'')]"
  have g: "guard (c_user ?ctx) (c_resource ?ctx @ ''.create'') = Inr ()"
    by (simp add: guard_def demo_ctx_def demo_user_def)
  have u: "c_user ?ctx = Some (demo_user (\<lambda>p. True) [])"
    by (simp add: demo_ctx_def)
  have r: "u_isRole (demo_user (\<lambda>p. True) []) = Some (\<lambda>r. r = None \<or> r = Some ''editor'')"
    by (simp add: demo_user_def)
  have d: "\<forall>kv \<in> set (c_request ?ctx). obj_get (w_fields demo_world) (fst kv) \<noteq> None"
    by (simp add: demo_defs)
  show ?thesis
    using g store_filters_by_role [OF g u r d, where env = mem_env]
    by (simp add: demo_defs)
qed

text \<open>
  C5, at a failing input. The actor lacks the role \<open>admin\<close> that the field \<open>secret\<close>
  asks for. store validates and saves the payload without \<open>secret\<close>; update validates,
  merges and saves it as submitted.
\<close>

theorem update_skips_role_filter:
  "issued demo_world
     (snd (store mem_env (demo_ctx (demo_user (\<lambda>p. True) []) demo_query [(''secret'', JStr ''s'')])
             demo_world))
     = [EvValidate [], EvMerge [], EvSave []] \<and>
   issued demo_world
     (snd (update mem_env (demo_ctx (demo_user (\<lambda>p. True) []) demo_query [(''secret'', JStr ''s'')])
             demo_world))
     = [EvValidate [(''secret'', JStr ''s'')], EvMerge [(''secret'', JStr ''s'')],
        EvSave [(''secret'', JStr ''s'')]]"
  by (simp add: store_def update_def guard_def demo_defs lacks_role_def field_role_def
      validate_merge_save_def Let_def emit_def issued_def)

text \<open>
  C10, as the code has it. The claim that every payload key that is not a declared
  field makes store fail with a TypeError fails for a key that names a member inherited
  from \<^verbatim>\<open>Object.prototype\<close>: \<^verbatim>\<open>fields['toString']\<close> is that member, its \<^verbatim>\<open>role\<close> is
  undefined, and store validates, merges and saves the key.
\<close>

theorem store_inherited_key_counterexample:
  "obj_get (w_fields demo_world) ''toString'' = None \<and>
   issued demo_world
     (snd (store mem_env
             (demo_ctx (demo_user (\<lambda>p. True) []) demo_query [(''toString'', JStr ''x'')])
             demo_world))
     = [EvValidate [(''toString'', JStr ''x'')], EvMerge [(''toString'', JStr ''x'')],
        EvSave [(''toString'', JStr ''x'')]]"
  by (simp add: store_def guard_def demo_defs lacks_role_def field_role_def
      object_prototype_members_def validate_merge_save_def Let_def emit_def issued_def)

text \<open>
  C10, amended. When the guard of store passes and the payload has a key that is
  neither a declared field nor the name of a member inherited from
  \<^verbatim>\<open>Object.prototype\<close>, store fails with a TypeError and nothing else happens: no
  validation, no merge, no save; the world is as it was.
\<close>

theorem store_unknown_key:
  assumes "guard (c_user ctx) (c_resource ctx @ ''.create'') = Inr ()"
    and "(k, v) \<in> set (c_request ctx)" and "obj_get (w_fields w) k = None"
    and "k \<notin> {''constructor'', ''__defineGetter__'', ''__defineSetter__'', ''hasOwnProperty'',
               ''__lookupGetter__'', ''__lookupSetter__'', ''isPrototypeOf'',
               ''propertyIsEnumerable'', ''toString'', ''valueOf'', ''__proto__'',
               ''toLocaleString''}"
  shows "store env ctx w = (Inl TypeError, w)"
proof -
  from assms(4) have "k \<notin> set object_prototype_members"
    by (simp add: object_prototype_members_def)
  from omitByE_unknown_key [OF assms(2,3) this, of "c_user ctx"] assms(1)
  show ?thesis by (simp add: store_def)
qed

theorem store_unknown_key_witness:
  "guard (c_user (demo_ctx (demo_user (\<lambda>p. True) []) demo_query
            [(''title'', JStr ''t''), (''nope'', JNum 1)]))
     (c_resource (demo_ctx (demo_user (\<lambda>p. True) []) demo_query
            [(''title'', JStr ''t''), (''nope'', JNum 1)]) @ ''.create'') = Inr () \<and>
   obj_get (w_fields demo_world) ''nope'' = None \<and>
   store mem_env (demo_ctx (demo_user (\<lambda>p. True) []) demo_query
            [(''title'', JStr ''t''), (''nope'', JNum 1)]) demo_world
     = (Inl TypeError, demo_world)"
proof -
  let ?ctx = "demo_ctx (demo_user (\<lambda>p. True) []) demo_query
            [(''title'', JStr ''t''), (''nope'', JNum 1)]"
  have g: "guard (c_user ?ctx) (c_resource ?ctx @ ''.create'') = Inr ()"
    by (simp add: guard_def demo_ctx_def demo_user_def)
  have k: "(''nope'', JNum 1) \<in> set (c_request ?ctx)"
    by (simp add: demo_ctx_def)
  have n: "obj_get (w_fields demo_world) ''nope'' = None"
    by (simp add: demo_defs)
  have m: "''nope'' \<notin> {''constructor'', ''__defineGetter__'', ''__defineSetter__'',
               ''hasOwnProperty'', ''__lookupGetter__'', ''__lookupSetter__'', ''isPrototypeOf'',
               ''propertyIsEnumerable'', ''toString'', ''valueOf'', ''__proto__'',
               ''toLocaleString''}"
    by simp
  show ?thesis
    using g n store_unknown_key [OF g k n m, where env = mem_env] by simp
qed

text \<open>
  C6, as the code has it. The claim that destroyAll deletes the records matching the
  request's filter fails: with the filter \<open>status = draft\<close>, which one of the two records
  does not match, destroyAll leaves no record.
\<close>

theorem destroyAll_ignores_filter_counterexample:
  "q_where (c_query (demo_ctx (demo_user (\<lambda>p. True) []) demo_query []))
     = [(''status'', JStr ''draft'')] \<and>
   filter (\<lambda>r. \<not> mem_matches (c_query (demo_ctx (demo_user (\<lambda>p. True) []) demo_query [])) r)
     (w_db demo_world)
     = [[(''title'', JStr ''b''), (''status'', JStr ''live''), (''user_ids'', JStr ''8'')]] \<and>
   w_db (snd (destroyAll mem_env (demo_ctx (demo_user (\<lambda>p. True) []) demo_query []) demo_world))
     = []"
  by (simp add: destroyAll_def guard_def demo_defs Let_def emit_def Model_query_def)

text \<open>
  C6, amended. When the guard passes, destroyAll makes one call, the bulk delete on
  \<open>Model.query()\<close> built without a query, whatever query and parameters the request
  carries; it returns the success acknowledgment with the records the engine leaves,
  or passes on the engine's failure.
\<close>

theorem destroyAll_unfiltered:
  assumes "guard (c_user ctx) (c_resource ctx @ ''.delete_all'') = Inr ()"
  shows
    "issued w (snd (destroyAll env ctx w)) = [EvBulkDelete (Model_query None)] \<and>
     b_query (Model_query None) = None \<and>
     (case e_bulkDelete env (Model_query None) (w_db w) of
        Inl e \<Rightarrow> fst (destroyAll env ctx w) = Inl e \<and> w_db (snd (destroyAll env ctx w)) = w_db w
      | Inr db' \<Rightarrow>
          fst (destroyAll env ctx w) = Inr \<lparr>success = True\<rparr> \<and>
          w_db (snd (destroyAll env ctx w)) = db') \<and>
     (\<forall>q r. destroyAll env (ctx\<lparr>c_query := q, c_request := r\<rparr>) w = destroyAll env ctx w)"
  using assms
  by (simp add: destroyAll_def Let_def emit_def issued_def Model_query_def split: sum.splits)

theorem destroyAll_unfiltered_witness:
  "guard (c_user (demo_ctx (demo_user (\<lambda>p. True) []) demo_query []))
     (c_resource (demo_ctx (demo_user (\<lambda>p. True) []) demo_query []) @ ''.delete_all'') = Inr () \<and>
   destroyAll mem_env (demo_ctx (demo_user (\<lambda>p. True) []) demo_query []) demo_world
     = (Inr \<lparr>success = True\<rparr>,
        demo_world\<lparr>w_db := [], w_log := [EvBulkDelete (Model_query None)]\<rparr>)"
proof -
  let ?ctx = "demo_ctx (demo_user (\<lambda>p. True) []) demo_query []"
  have g: "guard (c_user ?ctx) (c_resource ?ctx @ ''.delete_all'') = Inr ()"
    by (simp add: guard_def demo_ctx_def demo_user_def)
  show ?thesis
    using g destroyAll_unfiltered [OF g, where env = mem_env and w = demo_world]
    by (simp add: destroyAll_def demo_defs Let_def emit_def Model_query_def)
qed

section \<open>The options handler\<close>




end
